theory Spec2Isabelle
  imports Main "HOL-Library.Word" "HOL-Library.Monad_Syntax"
begin

unbundle bit_operations_syntax

section \<open>The captured frame\<close>

text \<open>
  The embedding follows \<^verbatim>\<open>src/net_traffic_processwise/sniffer.cpp\<close>. A captured frame
  is the byte buffer handed to the pcap callback together with its \<^verbatim>\<open>pcap_pkthdr\<close>.
  The buffer holds exactly the captured bytes, so a read at an index at or beyond the
  length of the buffer is a read outside the captured data. C leaves such a read
  undefined; the model makes it the value \<open>None\<close>, and every function that reads
  the buffer returns an \<open>option\<close>.
\<close>

type_synonym u_char = "8 word"
type_synonym u_short = "16 word"

record timeval =
  tv_sec :: int
  tv_usec :: int

record pcap_pkthdr =
  ts :: timeval
  caplen :: nat
  len :: nat

text \<open>One byte of the buffer (a \<^verbatim>\<open>u_char\<close> field of an overlaid struct).\<close>

definition byte_at :: "u_char list \<Rightarrow> nat \<Rightarrow> u_char option" where
  "byte_at packet i = (if i < length packet then Some (packet ! i) else None)"

text \<open>
  A \<^verbatim>\<open>u_short\<close> field passed through \<^verbatim>\<open>ntohs\<close>: the two bytes in memory are in network
  order, so the converted value has the first byte as its high half on every host.
\<close>

definition be16 :: "u_char \<Rightarrow> u_char \<Rightarrow> u_short" where
  "be16 hi lo = push_bit 8 (ucast hi) OR ucast lo"

definition ntohs_at :: "u_char list \<Rightarrow> nat \<Rightarrow> u_short option" where
  "ntohs_at packet i = do {
     hi \<leftarrow> byte_at packet i;
     lo \<leftarrow> byte_at packet (i + 1);
     Some (be16 hi lo)
   }"

text \<open>A \<^verbatim>\<open>struct in_addr\<close> field: four bytes, in the order they are on the wire.\<close>

definition in_addr_at :: "u_char list \<Rightarrow> nat \<Rightarrow> u_char list option" where
  "in_addr_at packet i = do {
     a \<leftarrow> byte_at packet i;
     b \<leftarrow> byte_at packet (i + 1);
     c \<leftarrow> byte_at packet (i + 2);
     d \<leftarrow> byte_at packet (i + 3);
     Some [a, b, c, d]
   }"

section \<open>Constants and macros\<close>

text \<open>
  \<^verbatim>\<open>SIZE_ETHERNET\<close>, \<^verbatim>\<open>IP_HL\<close> and \<^verbatim>\<open>TH_OFF\<close> are defined in the source file. The sizes
  of \<^verbatim>\<open>struct ether_header\<close> and \<^verbatim>\<open>struct ip\<close> and the protocol numbers come from the
  system headers \<^verbatim>\<open>netinet/if_ether.h\<close>, \<^verbatim>\<open>netinet/ip.h\<close> and \<^verbatim>\<open>netinet/in.h\<close>;
  \<^verbatim>\<open>struct UDP_hdr\<close> is four \<^verbatim>\<open>u_short\<close> fields.
\<close>

definition SIZE_ETHERNET :: nat where "SIZE_ETHERNET = 14"
definition sizeof_ether_header :: nat where "sizeof_ether_header = 14"
definition sizeof_ip :: nat where "sizeof_ip = 20"
definition sizeof_UDP_hdr :: nat where "sizeof_UDP_hdr = 8"

definition IPPROTO_IP :: u_char where "IPPROTO_IP = 0"
definition IPPROTO_ICMP :: u_char where "IPPROTO_ICMP = 1"
definition IPPROTO_TCP :: u_char where "IPPROTO_TCP = 6"
definition IPPROTO_UDP :: u_char where "IPPROTO_UDP = 17"

definition IP_HL :: "u_char \<Rightarrow> nat" where
  "IP_HL ip_vhl = unat (ip_vhl AND 0x0f)"

definition TH_OFF :: "u_char \<Rightarrow> nat" where
  "TH_OFF th_offx2 = unat (drop_bit 4 (th_offx2 AND 0xf0))"

section \<open>Text rendering\<close>

text \<open>
  \<^verbatim>\<open>std::to_string\<close> on a non-negative integer and \<^verbatim>\<open>inet_ntoa\<close> (dotted decimal of
  the four address bytes).
\<close>

definition digit_char :: "nat \<Rightarrow> char" where
  "digit_char d = ''0123456789'' ! d"

fun to_string :: "nat \<Rightarrow> string" where
  "to_string n =
     (if n < 10 then [digit_char n] else to_string (n div 10) @ [digit_char (n mod 10)])"

declare to_string.simps [simp del]

definition inet_ntoa :: "u_char list \<Rightarrow> string" where
  "inet_ntoa addr =
     to_string (unat (addr ! 0)) @ ''.'' @ to_string (unat (addr ! 1)) @ ''.'' @
     to_string (unat (addr ! 2)) @ ''.'' @ to_string (unat (addr ! 3))"

section \<open>Observable effects\<close>

text \<open>
  Neither function returns a value: what they do is print and call
  \<^verbatim>\<open>update_byte_count\<close>, which is declared in \<^verbatim>\<open>sniffer.h\<close> and taken here as an
  opaque call. The model returns the effects in the order the code performs them.
  \<open>Stdout\<close> is one line written by \<^verbatim>\<open>printf\<close> or \<^verbatim>\<open>std::cout\<close> (without its newline),
  \<open>TooShort\<close> and \<open>ProblemPkt\<close> are the calls of \<^verbatim>\<open>too_short\<close> and \<^verbatim>\<open>problem_pkt\<close>,
  which write to stderr, \<open>NoMatchUDP\<close> is the formatted line of the UDP branch with
  its arguments, and \<open>UpdateByteCount key n sent\<close> is the call
  \<^verbatim>\<open>update_byte_count(key, n, sent)\<close>.
\<close>

datatype event =
    Stdout string
  | TooShort timeval string
  | ProblemPkt timeval string
  | NoMatchUDP timeval nat nat nat
  | UpdateByteCount string int bool

fun calls :: "event list \<Rightarrow> (string \<times> int \<times> bool) list" where
  "calls [] = []"
| "calls (UpdateByteCount k n b # es) = (k, n, b) # calls es"
| "calls (_ # es) = calls es"

section \<open>Locality of the two addresses\<close>

text \<open>
  Lines 388 to 399 of \<^verbatim>\<open>got_packet\<close>: \<^verbatim>\<open>match_val\<close> from the two rendered addresses and
  the global \<^verbatim>\<open>plocal_ip\<close> (declared in \<^verbatim>\<open>sniffer.h\<close>, a parameter here).
\<close>

definition match_val_of :: "string \<Rightarrow> string \<Rightarrow> string \<Rightarrow> u_char" where
  "match_val_of plocal_ip src_ip dst_ip =
     (if src_ip = ''localhost'' \<or> src_ip = plocal_ip then
        (if dst_ip = ''localhost'' \<or> dst_ip = plocal_ip then 1 + 2 else 1)
      else if dst_ip = ''localhost'' \<or> dst_ip = plocal_ip then 2
      else 0)"

section \<open>dump_UDP_packet\<close>

text \<open>
  The flag \<open>console\<close> stands for the macro \<^verbatim>\<open>ENABLE_CONSOLE_MESSAGES\<close>, which the
  source file tests and does not define. The pointer that the source moves through
  the packet is the offset \<open>off\<close>. The bit-field \<^verbatim>\<open>ip_hl\<close> of \<^verbatim>\<open>struct ip\<close> is the low
  nibble of the first byte of the IP header, which is what \<open>IP_HL\<close> extracts, and
  \<^verbatim>\<open>ip_p\<close> is the byte at offset 9. \<^verbatim>\<open>capture_len\<close> is unsigned; each subtraction
  comes after the comparison that rules out a wrap-around, so \<open>nat\<close> subtraction is
  the same.
\<close>

definition dump_UDP_packet ::
  "bool \<Rightarrow> u_char list \<Rightarrow> timeval \<Rightarrow> nat \<Rightarrow> u_char \<Rightarrow> event list option" where
  "dump_UDP_packet console packet tv capture_len match_val =
     (if capture_len < sizeof_ether_header then Some [TooShort tv ''Ethernet header'']
      else
        let off = sizeof_ether_header;
            capture_len = capture_len - sizeof_ether_header
        in
        if capture_len < sizeof_ip then Some [TooShort tv ''IP header'']
        else do {
          ip_vhl \<leftarrow> byte_at packet off;
          let IP_header_length = IP_HL ip_vhl * 4;
          if capture_len < IP_header_length
          then Some [TooShort tv ''IP header with options'']
          else do {
            ip_p \<leftarrow> byte_at packet (off + 9);
            if ip_p \<noteq> IPPROTO_UDP then Some [ProblemPkt tv ''non-UDP packet'']
            else
              let off = off + IP_header_length;
                  capture_len = capture_len - IP_header_length
              in
              if capture_len < sizeof_UDP_hdr then Some [TooShort tv ''UDP header'']
              else
                if match_val = 1 then do {
                  uh_sport \<leftarrow> ntohs_at packet off;
                  uh_ulen \<leftarrow> ntohs_at packet (off + 4);
                  Some [UpdateByteCount (to_string (unat uh_sport)) (uint uh_ulen) True]
                }
                else if match_val = 2 then do {
                  uh_dport \<leftarrow> ntohs_at packet (off + 2);
                  uh_ulen \<leftarrow> ntohs_at packet (off + 4);
                  Some [UpdateByteCount (to_string (unat uh_dport)) (uint uh_ulen) False]
                }
                else if match_val = 3 then do {
                  uh_sport \<leftarrow> ntohs_at packet off;
                  uh_ulen \<leftarrow> ntohs_at packet (off + 4);
                  uh_dport \<leftarrow> ntohs_at packet (off + 2);
                  Some [UpdateByteCount (to_string (unat uh_sport)) (uint uh_ulen) True,
                        UpdateByteCount (to_string (unat uh_dport)) (uint uh_ulen) False]
                }
                else if console then do {
                  uh_sport \<leftarrow> ntohs_at packet off;
                  uh_dport \<leftarrow> ntohs_at packet (off + 2);
                  uh_ulen \<leftarrow> ntohs_at packet (off + 4);
                  Some [NoMatchUDP tv (unat uh_sport) (unat uh_dport) (unat uh_ulen)]
                }
                else Some []
          }
        })"

section \<open>got_packet\<close>

text \<open>
  The pcap callback. Its static packet counter is only incremented and never read, and
  its first argument is not used, so both are left out. The fields of
  \<^verbatim>\<open>struct sniff_ip\<close> and \<^verbatim>\<open>struct sniff_tcp\<close> are read at their offsets in the
  struct: \<^verbatim>\<open>ip_vhl\<close> 0, \<^verbatim>\<open>ip_len\<close> 2, \<^verbatim>\<open>ip_p\<close> 9, \<^verbatim>\<open>ip_src\<close> 12, \<^verbatim>\<open>ip_dst\<close> 16,
  and \<^verbatim>\<open>th_sport\<close> 0, \<^verbatim>\<open>th_dport\<close> 2, \<^verbatim>\<open>th_offx2\<close> 12. The order of the reads is
  the order of the source: the header-length byte of the IP header, the two addresses,
  the protocol byte, and for TCP the data-offset byte, the two ports and the IP total
  length. \<^verbatim>\<open>header->caplen\<close> is used once, as an argument of \<^verbatim>\<open>dump_UDP_packet\<close>.
\<close>

definition got_packet ::
  "bool \<Rightarrow> string \<Rightarrow> pcap_pkthdr \<Rightarrow> u_char list \<Rightarrow> event list option" where
  "got_packet console plocal_ip header packet = do {
     ip_vhl \<leftarrow> byte_at packet SIZE_ETHERNET;
     let size_ip = IP_HL ip_vhl * 4;
     if size_ip < 20
     then Some [Stdout (''   * Invalid IP header length: '' @ to_string size_ip @ '' bytes'')]
     else do {
       ip_src \<leftarrow> in_addr_at packet (SIZE_ETHERNET + 12);
       let src_ip = inet_ntoa ip_src;
       ip_dst \<leftarrow> in_addr_at packet (SIZE_ETHERNET + 16);
       let dst_ip = inet_ntoa ip_dst;
       let match_val = match_val_of plocal_ip src_ip dst_ip;
       let shown = (if console
                    then [Stdout (''       From: '' @ src_ip), Stdout (''         To: '' @ dst_ip)]
                    else []);
       ip_p \<leftarrow> byte_at packet (SIZE_ETHERNET + 9);
       if ip_p = IPPROTO_TCP then do {
         let shown = shown @ (if console then [Stdout ''   Protocol: TCP''] else []);
         th_offx2 \<leftarrow> byte_at packet (SIZE_ETHERNET + size_ip + 12);
         let size_tcp = TH_OFF th_offx2 * 4;
         if size_tcp < 20
         then Some (shown @
                [Stdout (''   * Invalid TCP header length: '' @ to_string size_tcp @ '' bytes'')])
         else do {
           src_port \<leftarrow> ntohs_at packet (SIZE_ETHERNET + size_ip);
           dst_port \<leftarrow> ntohs_at packet (SIZE_ETHERNET + size_ip + 2);
           ip_len \<leftarrow> ntohs_at packet (SIZE_ETHERNET + 2);
           let size_payload = uint ip_len - (int size_ip + int size_tcp);
           if match_val = 1
           then Some (shown @ [UpdateByteCount (to_string (unat src_port)) size_payload True])
           else if match_val = 2
           then Some (shown @ [UpdateByteCount (to_string (unat dst_port)) size_payload False])
           else if match_val = 3
           then Some (shown @ [UpdateByteCount (to_string (unat src_port)) size_payload True,
                               UpdateByteCount (to_string (unat dst_port)) size_payload False])
           else Some (shown @ [Stdout ''tcp packet is not for this host!''])
         }
       }
       else if ip_p = IPPROTO_UDP then do {
         evs \<leftarrow> dump_UDP_packet console packet (ts header) (caplen header) match_val;
         Some (shown @ evs @ (if console then [Stdout ''   Protocol: UDP''] else []))
       }
       else if ip_p = IPPROTO_ICMP then Some (shown @ [Stdout ''   Protocol: ICMP''])
       else if ip_p = IPPROTO_IP then Some (shown @ [Stdout ''   Protocol: IP''])
       else Some (shown @ [Stdout ''   Protocol: unknown''])
     }
   }"

section \<open>Header fields of a frame\<close>

text \<open>
  The fields the two functions read, as functions of the frame, for stating what the
  functions do. Each is the byte or bytes at the offset of the overlaid struct field;
  they are used only under hypotheses that put these offsets inside the frame.
  The ports of \<^verbatim>\<open>struct sniff_tcp\<close> and of \<^verbatim>\<open>struct UDP_hdr\<close> are at the same
  offsets, the first four bytes after the IP header.
\<close>

definition hdr_size_ip :: "u_char list \<Rightarrow> nat" where
  "hdr_size_ip packet = IP_HL (packet ! SIZE_ETHERNET) * 4"

definition hdr_ip_p :: "u_char list \<Rightarrow> u_char" where
  "hdr_ip_p packet = packet ! (SIZE_ETHERNET + 9)"

definition hdr_ip_len :: "u_char list \<Rightarrow> u_short" where
  "hdr_ip_len packet = be16 (packet ! (SIZE_ETHERNET + 2)) (packet ! (SIZE_ETHERNET + 3))"

definition hdr_src_ip :: "u_char list \<Rightarrow> string" where
  "hdr_src_ip packet =
     inet_ntoa [packet ! (SIZE_ETHERNET + 12), packet ! (SIZE_ETHERNET + 13),
                packet ! (SIZE_ETHERNET + 14), packet ! (SIZE_ETHERNET + 15)]"

definition hdr_dst_ip :: "u_char list \<Rightarrow> string" where
  "hdr_dst_ip packet =
     inet_ntoa [packet ! (SIZE_ETHERNET + 16), packet ! (SIZE_ETHERNET + 17),
                packet ! (SIZE_ETHERNET + 18), packet ! (SIZE_ETHERNET + 19)]"

definition hdr_match_val :: "string \<Rightarrow> u_char list \<Rightarrow> u_char" where
  "hdr_match_val plocal_ip packet =
     match_val_of plocal_ip (hdr_src_ip packet) (hdr_dst_ip packet)"

definition hdr_size_tcp :: "u_char list \<Rightarrow> nat" where
  "hdr_size_tcp packet = TH_OFF (packet ! (SIZE_ETHERNET + hdr_size_ip packet + 12)) * 4"

definition hdr_sport :: "u_char list \<Rightarrow> u_short" where
  "hdr_sport packet =
     be16 (packet ! (SIZE_ETHERNET + hdr_size_ip packet))
          (packet ! (SIZE_ETHERNET + hdr_size_ip packet + 1))"

definition hdr_dport :: "u_char list \<Rightarrow> u_short" where
  "hdr_dport packet =
     be16 (packet ! (SIZE_ETHERNET + hdr_size_ip packet + 2))
          (packet ! (SIZE_ETHERNET + hdr_size_ip packet + 3))"

definition hdr_uh_ulen :: "u_char list \<Rightarrow> u_short" where
  "hdr_uh_ulen packet =
     be16 (packet ! (SIZE_ETHERNET + hdr_size_ip packet + 4))
          (packet ! (SIZE_ETHERNET + hdr_size_ip packet + 5))"

definition shown_addresses :: "bool \<Rightarrow> u_char list \<Rightarrow> event list" where
  "shown_addresses console packet =
     (if console
      then [Stdout (''       From: '' @ hdr_src_ip packet),
            Stdout (''         To: '' @ hdr_dst_ip packet)]
      else [])"


section \<open>Classification\<close>

text \<open>
  The four classifications of the specification, and the reading of \<^verbatim>\<open>match_val\<close> that
  the two dispatch chains of the source give it: 1, 2, 3, and anything else.
\<close>

datatype Classification = NoMatch | SourceIsLocal | DestinationIsLocal | BothLocal

definition classification_of :: "u_char \<Rightarrow> Classification" where
  "classification_of match_val =
     (if match_val = 1 then SourceIsLocal
      else if match_val = 2 then DestinationIsLocal
      else if match_val = 3 then BothLocal
      else NoMatch)"

text \<open>
  The classification rule in the words of the specification, over a set of local
  addresses: both in the set, else the source, else the destination, else no match.
\<close>

definition classify_spec :: "string \<Rightarrow> string \<Rightarrow> string set \<Rightarrow> Classification" where
  "classify_spec sourceIp destIp localAddresses =
     (if sourceIp \<in> localAddresses \<and> destIp \<in> localAddresses then BothLocal
      else if sourceIp \<in> localAddresses then SourceIsLocal
      else if destIp \<in> localAddresses then DestinationIsLocal
      else NoMatch)"

text \<open>
  The dispatch rule in the words of the specification: the record calls a
  classification asks for, each as (port key, byte length, sent), where the flag is
  \<open>True\<close> for Sent and \<open>False\<close> for Received.
\<close>

definition dispatch_spec ::
  "Classification \<Rightarrow> string \<Rightarrow> string \<Rightarrow> int \<Rightarrow> (string \<times> int \<times> bool) list" where
  "dispatch_spec c sourcePort destPort payloadLength =
     (case c of
        SourceIsLocal \<Rightarrow> [(sourcePort, payloadLength, True)]
      | DestinationIsLocal \<Rightarrow> [(destPort, payloadLength, False)]
      | BothLocal \<Rightarrow> [(sourcePort, payloadLength, True), (destPort, payloadLength, False)]
      | NoMatch \<Rightarrow> [])"

section \<open>Dissected transport packets\<close>

text \<open>
  A TCP packet that \<^verbatim>\<open>got_packet\<close> takes to its dispatch: both header-length fields
  are at least 20, and the frame holds the TCP header up to its data-offset byte (the
  furthest byte the function reads). A UDP packet that \<^verbatim>\<open>dump_UDP_packet\<close> takes to
  its dispatch: the captured length lies within the buffer and covers the Ethernet
  header, the IP header and the eight bytes of the UDP header.
\<close>

definition dissected_tcp :: "u_char list \<Rightarrow> bool" where
  "dissected_tcp packet \<longleftrightarrow>
     20 \<le> hdr_size_ip packet \<and>
     SIZE_ETHERNET + hdr_size_ip packet + 12 < length packet \<and>
     hdr_ip_p packet = IPPROTO_TCP \<and>
     20 \<le> hdr_size_tcp packet"

definition dissected_udp :: "pcap_pkthdr \<Rightarrow> u_char list \<Rightarrow> bool" where
  "dissected_udp header packet \<longleftrightarrow>
     caplen header \<le> length packet \<and>
     20 \<le> hdr_size_ip packet \<and>
     SIZE_ETHERNET + hdr_size_ip packet + sizeof_UDP_hdr \<le> caplen header \<and>
     hdr_ip_p packet = IPPROTO_UDP"

definition tcp_size_payload :: "u_char list \<Rightarrow> int" where
  "tcp_size_payload packet =
     uint (hdr_ip_len packet) - (int (hdr_size_ip packet) + int (hdr_size_tcp packet))"

definition accounted_length :: "u_char list \<Rightarrow> int" where
  "accounted_length packet =
     (if hdr_ip_p packet = IPPROTO_TCP then tcp_size_payload packet
      else uint (hdr_uh_ulen packet))"

definition call_lengths :: "event list \<Rightarrow> int list" where
  "call_lengths evs = map (\<lambda>(k, n, b). n) (calls evs)"

section \<open>Example frames\<close>

text \<open>
  Concrete frames on which the functions are evaluated. All start with the same
  Ethernet header (ethertype 0x0800); \<open>captured n\<close> is the pcap header of a frame
  captured whole with \<open>n\<close> bytes.
\<close>

definition captured :: "nat \<Rightarrow> pcap_pkthdr" where
  "captured n = \<lparr>ts = \<lparr>tv_sec = 0, tv_usec = 0\<rparr>, caplen = n, len = n\<rparr>"

definition ether_bytes :: "u_char list" where
  "ether_bytes = [0, 0, 0, 0, 0, 2,  0, 0, 0, 0, 0, 1,  0x08, 0x00]"

text \<open>Thirteen bytes: one byte short of an Ethernet header.\<close>

definition frame_13 :: "u_char list" where
  "frame_13 = [0, 0, 0, 0, 0, 2,  0, 0, 0, 0, 0, 1,  0x08]"

text \<open>An Ethernet header and nothing after it.\<close>

definition frame_eth14 :: "u_char list" where
  "frame_eth14 = ether_bytes"

text \<open>An Ethernet header and one byte of IP header whose length field is 3.\<close>

definition frame_ihl3 :: "u_char list" where
  "frame_ihl3 = ether_bytes @ [0x43]"

text \<open>
  Ethernet, a minimal IP header and a UDP header, 42 bytes: 127.0.0.1 to 127.0.0.1,
  UDP, port 5000 to port 6000, UDP length field 8.
\<close>

definition frame_udp42 :: "u_char list" where
  "frame_udp42 = ether_bytes @
     [0x45, 0, 0, 28,  0, 0, 0, 0,  64, 17, 0, 0,  127, 0, 0, 1,  127, 0, 0, 1] @
     [0x13, 0x88,  0x17, 0x70,  0, 8,  0, 0]"

text \<open>
  Ethernet, a minimal IP header and a minimal TCP header, 54 bytes: 10.0.0.1 to
  10.0.0.2, TCP, port 5000 to port 80, IP total length 100, data offset 5.
\<close>

definition frame_tcp54 :: "u_char list" where
  "frame_tcp54 = ether_bytes @
     [0x45, 0, 0, 100,  0, 0, 0, 0,  64, 6, 0, 0,  10, 0, 0, 1,  10, 0, 0, 2] @
     [0x13, 0x88,  0, 80,  0, 0, 0, 0,  0, 0, 0, 0,  0x50, 0x18,  0, 0,  0, 0,  0, 0]"

text \<open>The same packet captured up to the flags byte: 14 bytes after the IP header.\<close>

definition frame_tcp48 :: "u_char list" where
  "frame_tcp48 = ether_bytes @
     [0x45, 0, 0, 100,  0, 0, 0, 0,  64, 6, 0, 0,  10, 0, 0, 1,  10, 0, 0, 2] @
     [0x13, 0x88,  0, 80,  0, 0, 0, 0,  0, 0, 0, 0,  0x50, 0x18]"

text \<open>The same packet with IP total length 30, less than the 40 bytes of headers.\<close>

definition frame_tcp_len30 :: "u_char list" where
  "frame_tcp_len30 = ether_bytes @
     [0x45, 0, 0, 30,  0, 0, 0, 0,  64, 6, 0, 0,  10, 0, 0, 1,  10, 0, 0, 2] @
     [0x13, 0x88,  0, 80,  0, 0, 0, 0,  0, 0, 0, 0,  0x50, 0x18,  0, 0,  0, 0,  0, 0]"

text \<open>Ethernet and a minimal IP header with protocol 1 (ICMP), 34 bytes.\<close>

definition frame_icmp :: "u_char list" where
  "frame_icmp = ether_bytes @
     [0x45, 0, 0, 20,  0, 0, 0, 0,  64, 1, 0, 0,  10, 0, 0, 1,  10, 0, 0, 2]"

section \<open>Reading inside the frame\<close>

lemma byte_at_Some: "i < length packet \<Longrightarrow> byte_at packet i = Some (packet ! i)"
  by (simp add: byte_at_def)

lemma byte_at_None: "length packet \<le> i \<Longrightarrow> byte_at packet i = None"
  by (simp add: byte_at_def)

lemma ntohs_at_Some:
  "i + 1 < length packet \<Longrightarrow> ntohs_at packet i = Some (be16 (packet ! i) (packet ! (i + 1)))"
  by (simp add: ntohs_at_def byte_at_def)

lemma in_addr_at_Some:
  "i + 3 < length packet \<Longrightarrow>
   in_addr_at packet i = Some [packet ! i, packet ! (i + 1), packet ! (i + 2), packet ! (i + 3)]"
  by (simp add: in_addr_at_def byte_at_def)

lemma got_packet_short:
  "length packet \<le> SIZE_ETHERNET \<Longrightarrow> got_packet console plocal_ip header packet = None"
  by (simp add: got_packet_def byte_at_None)

lemma got_packet_invalid_ip:
  assumes "SIZE_ETHERNET < length packet" and "hdr_size_ip packet < 20"
  shows "got_packet console plocal_ip header packet =
         Some [Stdout (''   * Invalid IP header length: '' @ to_string (hdr_size_ip packet)
                       @ '' bytes'')]"
  using assms by (simp add: got_packet_def byte_at_Some hdr_size_ip_def)

lemmas ipproto_defs = IPPROTO_IP_def IPPROTO_ICMP_def IPPROTO_TCP_def IPPROTO_UDP_def

lemmas hdr_defs = hdr_size_ip_def hdr_match_val_def hdr_src_ip_def hdr_dst_ip_def
  hdr_ip_p_def hdr_ip_len_def hdr_size_tcp_def hdr_sport_def hdr_dport_def hdr_uh_ulen_def
  shown_addresses_def

lemma got_packet_other:
  assumes "SIZE_ETHERNET + 20 \<le> length packet" and "20 \<le> hdr_size_ip packet"
    and "hdr_ip_p packet \<noteq> IPPROTO_TCP" and "hdr_ip_p packet \<noteq> IPPROTO_UDP"
  shows "got_packet console plocal_ip header packet =
         Some (shown_addresses console packet @
               [Stdout (if hdr_ip_p packet = IPPROTO_ICMP then ''   Protocol: ICMP''
                        else if hdr_ip_p packet = IPPROTO_IP then ''   Protocol: IP''
                        else ''   Protocol: unknown'')])"
proof -
  have l: "34 \<le> length packet"
    using assms(1) by (simp add: SIZE_ETHERNET_def)
  have n: "\<not> IP_HL (packet ! 14) * 4 < 20"
    using assms(2) by (simp add: hdr_size_ip_def SIZE_ETHERNET_def)
  have p: "packet ! 23 \<noteq> IPPROTO_TCP" "packet ! 23 \<noteq> IPPROTO_UDP"
    using assms(3,4) by (simp_all add: hdr_ip_p_def SIZE_ETHERNET_def)
  show ?thesis
    using l n p
    by (simp add: got_packet_def SIZE_ETHERNET_def byte_at_Some in_addr_at_Some Let_def
        hdr_defs)
qed

lemma got_packet_tcp_invalid:
  assumes "SIZE_ETHERNET + hdr_size_ip packet + 12 < length packet"
    and "20 \<le> hdr_size_ip packet"
    and "hdr_ip_p packet = IPPROTO_TCP" and "hdr_size_tcp packet < 20"
  shows "got_packet console plocal_ip header packet =
         Some (shown_addresses console packet @
               (if console then [Stdout ''   Protocol: TCP''] else []) @
               [Stdout (''   * Invalid TCP header length: '' @ to_string (hdr_size_tcp packet)
                        @ '' bytes'')])"
proof -
  have n: "\<not> IP_HL (packet ! 14) * 4 < 20"
    using assms(2) by (simp add: hdr_size_ip_def SIZE_ETHERNET_def)
  have l: "34 \<le> length packet" "26 + IP_HL (packet ! 14) * 4 < length packet"
    using assms(1) n by (simp_all add: SIZE_ETHERNET_def hdr_size_ip_def)
  have p: "packet ! 23 = IPPROTO_TCP"
    using assms(3) by (simp add: hdr_ip_p_def SIZE_ETHERNET_def)
  have t: "TH_OFF (packet ! (26 + IP_HL (packet ! 14) * 4)) * 4 < 20"
    using assms(4) by (simp add: hdr_size_tcp_def hdr_size_ip_def SIZE_ETHERNET_def add.commute)
  show ?thesis
    using l n p t
    by (simp add: got_packet_def SIZE_ETHERNET_def byte_at_Some in_addr_at_Some Let_def
        hdr_defs add.commute)
qed

lemma got_packet_tcp_ok:
  assumes "SIZE_ETHERNET + hdr_size_ip packet + 12 < length packet"
    and "20 \<le> hdr_size_ip packet"
    and "hdr_ip_p packet = IPPROTO_TCP" and "20 \<le> hdr_size_tcp packet"
  shows "got_packet console plocal_ip header packet =
    (let shown = shown_addresses console packet @
                 (if console then [Stdout ''   Protocol: TCP''] else []);
         match_val = hdr_match_val plocal_ip packet;
         src_port = hdr_sport packet;
         dst_port = hdr_dport packet;
         size_payload = uint (hdr_ip_len packet)
                        - (int (hdr_size_ip packet) + int (hdr_size_tcp packet))
     in if match_val = 1
        then Some (shown @ [UpdateByteCount (to_string (unat src_port)) size_payload True])
        else if match_val = 2
        then Some (shown @ [UpdateByteCount (to_string (unat dst_port)) size_payload False])
        else if match_val = 3
        then Some (shown @ [UpdateByteCount (to_string (unat src_port)) size_payload True,
                            UpdateByteCount (to_string (unat dst_port)) size_payload False])
        else Some (shown @ [Stdout ''tcp packet is not for this host!'']))"
proof -
  have n: "\<not> IP_HL (packet ! 14) * 4 < 20"
    using assms(2) by (simp add: hdr_size_ip_def SIZE_ETHERNET_def)
  have l: "34 \<le> length packet" "26 + IP_HL (packet ! 14) * 4 < length packet"
    using assms(1) n by (simp_all add: SIZE_ETHERNET_def hdr_size_ip_def)
  have p: "packet ! 23 = IPPROTO_TCP"
    using assms(3) by (simp add: hdr_ip_p_def SIZE_ETHERNET_def)
  have t: "\<not> TH_OFF (packet ! (26 + IP_HL (packet ! 14) * 4)) * 4 < 20"
    using assms(4) by (simp add: hdr_size_tcp_def hdr_size_ip_def SIZE_ETHERNET_def add.commute)
  show ?thesis
    using l n p t
    by (simp add: got_packet_def SIZE_ETHERNET_def byte_at_Some in_addr_at_Some ntohs_at_Some
        Let_def hdr_defs add.commute)
qed


lemma dump_UDP_packet_in_bounds:
  assumes "capture_len \<le> length packet"
  shows "dump_UDP_packet console packet tv capture_len match_val \<noteq> None"
  using assms
  by (simp add: dump_UDP_packet_def sizeof_ether_header_def sizeof_ip_def sizeof_UDP_hdr_def
      Let_def byte_at_Some ntohs_at_Some)

lemma dump_UDP_packet_ok:
  assumes "capture_len \<le> length packet"
    and "20 \<le> hdr_size_ip packet"
    and "SIZE_ETHERNET + hdr_size_ip packet + 8 \<le> capture_len"
    and "hdr_ip_p packet = IPPROTO_UDP"
  shows "dump_UDP_packet console packet tv capture_len match_val =
    (let uh_sport = hdr_sport packet; uh_dport = hdr_dport packet;
         uh_ulen = hdr_uh_ulen packet
     in if match_val = 1
        then Some [UpdateByteCount (to_string (unat uh_sport)) (uint uh_ulen) True]
        else if match_val = 2
        then Some [UpdateByteCount (to_string (unat uh_dport)) (uint uh_ulen) False]
        else if match_val = 3
        then Some [UpdateByteCount (to_string (unat uh_sport)) (uint uh_ulen) True,
                   UpdateByteCount (to_string (unat uh_dport)) (uint uh_ulen) False]
        else if console
        then Some [NoMatchUDP tv (unat uh_sport) (unat uh_dport) (unat uh_ulen)]
        else Some [])"
proof -
  have l: "14 + IP_HL (packet ! 14) * 4 + 8 \<le> capture_len"
    using assms(3) by (simp add: SIZE_ETHERNET_def hdr_size_ip_def)
  have n: "20 \<le> IP_HL (packet ! 14) * 4"
    using assms(2) by (simp add: hdr_size_ip_def SIZE_ETHERNET_def)
  have p: "packet ! 23 = IPPROTO_UDP"
    using assms(4) by (simp add: hdr_ip_p_def SIZE_ETHERNET_def)
  show ?thesis
    using assms(1) l n p
    by (simp add: dump_UDP_packet_def sizeof_ether_header_def sizeof_ip_def sizeof_UDP_hdr_def
        Let_def byte_at_Some ntohs_at_Some hdr_defs SIZE_ETHERNET_def add.commute)
      arith
qed

lemma got_packet_udp:
  assumes "caplen header \<le> length packet"
    and "20 \<le> hdr_size_ip packet"
    and "SIZE_ETHERNET + hdr_size_ip packet + 8 \<le> caplen header"
    and "hdr_ip_p packet = IPPROTO_UDP"
  shows "got_packet console plocal_ip header packet =
    do {
      evs \<leftarrow> dump_UDP_packet console packet (ts header) (caplen header)
               (hdr_match_val plocal_ip packet);
      Some (shown_addresses console packet @ evs @
            (if console then [Stdout ''   Protocol: UDP''] else []))
    }"
proof -
  have n: "\<not> IP_HL (packet ! 14) * 4 < 20"
    using assms(2) by (simp add: hdr_size_ip_def SIZE_ETHERNET_def)
  have l: "34 \<le> length packet"
    using assms(1,3) n by (simp add: SIZE_ETHERNET_def hdr_size_ip_def)
  have p: "packet ! 23 = IPPROTO_UDP"
    using assms(4) by (simp add: hdr_ip_p_def SIZE_ETHERNET_def)
  show ?thesis
    using l n p
    by (simp add: got_packet_def SIZE_ETHERNET_def byte_at_Some in_addr_at_Some Let_def
        hdr_defs ipproto_defs)
qed

lemmas frame_defs = ether_bytes_def frame_13_def frame_eth14_def frame_ihl3_def
  frame_udp42_def frame_tcp54_def frame_tcp48_def frame_tcp_len30_def
  frame_icmp_def captured_def

lemmas reader_defs = byte_at_def ntohs_at_def in_addr_at_def be16_def SIZE_ETHERNET_def
  sizeof_ether_header_def sizeof_ip_def sizeof_UDP_hdr_def IP_HL_def TH_OFF_def
  inet_ntoa_def to_string.simps digit_char_def

lemmas run_defs = got_packet_def dump_UDP_packet_def match_val_of_def Let_def

lemmas view_defs = hdr_defs dissected_tcp_def dissected_udp_def tcp_size_payload_def
  accounted_length_def classification_of_def dispatch_spec_def call_lengths_def

section \<open>Effects of the two functions on dissected packets\<close>

lemma calls_append: "calls (xs @ ys) = calls xs @ calls ys"
  by (induction xs rule: calls.induct) simp_all

lemma calls_shown_addresses: "calls (shown_addresses console packet) = []"
  by (simp add: shown_addresses_def)

lemma got_packet_tcp_calls:
  assumes "dissected_tcp packet"
  shows "\<exists>evs. got_packet console plocal_ip header packet = Some evs \<and>
     calls evs = dispatch_spec (classification_of (hdr_match_val plocal_ip packet))
                   (to_string (unat (hdr_sport packet)))
                   (to_string (unat (hdr_dport packet)))
                   (tcp_size_payload packet)"
proof -
  from assms have a: "SIZE_ETHERNET + hdr_size_ip packet + 12 < length packet"
    and b: "20 \<le> hdr_size_ip packet" and c: "hdr_ip_p packet = IPPROTO_TCP"
    and d: "20 \<le> hdr_size_tcp packet"
    by (simp_all add: dissected_tcp_def)
  show ?thesis
    unfolding got_packet_tcp_ok [OF a b c d]
    by (simp add: Let_def calls_append calls_shown_addresses dispatch_spec_def
        classification_of_def tcp_size_payload_def)
qed

lemma got_packet_udp_calls:
  assumes "dissected_udp header packet"
  shows "\<exists>evs. got_packet console plocal_ip header packet = Some evs \<and>
     calls evs = dispatch_spec (classification_of (hdr_match_val plocal_ip packet))
                   (to_string (unat (hdr_sport packet)))
                   (to_string (unat (hdr_dport packet)))
                   (uint (hdr_uh_ulen packet))"
proof -
  from assms have a: "caplen header \<le> length packet"
    and b: "20 \<le> hdr_size_ip packet"
    and c: "SIZE_ETHERNET + hdr_size_ip packet + 8 \<le> caplen header"
    and d: "hdr_ip_p packet = IPPROTO_UDP"
    by (simp_all add: dissected_udp_def sizeof_UDP_hdr_def)
  show ?thesis
    unfolding got_packet_udp [OF a b c d] dump_UDP_packet_ok [OF a b c d]
    by (simp add: Let_def calls_append calls_shown_addresses dispatch_spec_def
        classification_of_def)
qed

lemma call_lengths_dispatch_spec:
  "set (map (\<lambda>(k, n, b). n) (dispatch_spec c s d n)) \<subseteq> {n}"
  "c \<noteq> NoMatch \<Longrightarrow> map (\<lambda>(k, n, b). n) (dispatch_spec c s d n) \<noteq> []"
  by (cases c; simp add: dispatch_spec_def)+

section \<open>Capacity checks before header reads\<close>

text \<open>
  Claim C1: every header field access of the pipeline is preceded by a check that the
  remaining captured bytes suffice. \<^verbatim>\<open>dump_UDP_packet\<close> does check (it never reads
  outside a buffer that holds the captured length, lemma \<open>dump_UDP_packet_in_bounds\<close>),
  but \<^verbatim>\<open>got_packet\<close>, which runs first, does not: handed a frame that is an Ethernet
  header and nothing more, it reads the IP header-length byte at offset 14, outside the
  captured data.
\<close>

theorem got_packet_reads_beyond_ethernet_header:
  "got_packet console plocal_ip (captured 14) frame_eth14 = None"
  by (simp add: got_packet_short SIZE_ETHERNET_def frame_defs)

section \<open>The TCP payload length\<close>

text \<open>
  Claim C2, as amended: for every TCP packet that reaches the dispatch, the length
  computed as IP total length minus IP header length minus TCP header length is the
  length of every \<^verbatim>\<open>update_byte_count\<close> call made for the packet, whatever its sign,
  and a call is made whenever one of the addresses is local.
\<close>

theorem tcp_payload_passed_unchecked:
  assumes "dissected_tcp packet"
  shows "\<exists>evs. got_packet console plocal_ip header packet = Some evs \<and>
     (\<forall>n \<in> set (call_lengths evs). n = tcp_size_payload packet) \<and>
     (classification_of (hdr_match_val plocal_ip packet) \<noteq> NoMatch \<longrightarrow>
        call_lengths evs \<noteq> [])"
proof -
  from got_packet_tcp_calls [OF assms, of console plocal_ip header]
  obtain evs where e: "got_packet console plocal_ip header packet = Some evs"
    and c: "calls evs = dispatch_spec (classification_of (hdr_match_val plocal_ip packet))
                   (to_string (unat (hdr_sport packet)))
                   (to_string (unat (hdr_dport packet)))
                   (tcp_size_payload packet)"
    by blast
  show ?thesis
    using e call_lengths_dispatch_spec [of "classification_of (hdr_match_val plocal_ip packet)"
        "to_string (unat (hdr_sport packet))" "to_string (unat (hdr_dport packet))"
        "tcp_size_payload packet"]
    by (auto simp add: call_lengths_def c)
qed

theorem tcp_payload_passed_unchecked_witness:
  "dissected_tcp frame_tcp_len30 \<and> tcp_size_payload frame_tcp_len30 = - 10 \<and>
   (\<exists>evs. got_packet False ''10.0.0.1'' (captured 54) frame_tcp_len30 = Some evs \<and>
          (\<forall>n \<in> set (call_lengths evs). n = - 10) \<and> call_lengths evs \<noteq> [])"
proof -
  have h: "dissected_tcp frame_tcp_len30"
    by (simp add: view_defs reader_defs frame_defs ipproto_defs)
  have c: "classification_of (hdr_match_val ''10.0.0.1'' frame_tcp_len30) \<noteq> NoMatch"
    by (simp add: view_defs reader_defs frame_defs match_val_of_def)
  have p: "tcp_size_payload frame_tcp_len30 = - 10"
    by (simp add: view_defs reader_defs frame_defs)
  from tcp_payload_passed_unchecked [OF h, of False "''10.0.0.1''" "captured 54"]
  show ?thesis
    using h c p by simp
qed

text \<open>
  The claim as first stated, that a negative length makes dissection fail, does not
  hold: with IP total length 30 and 40 bytes of headers the call carries \<open>-10\<close>.
\<close>

theorem tcp_negative_payload_counterexample:
  "got_packet False ''10.0.0.1'' (captured 54) frame_tcp_len30 =
     Some [UpdateByteCount ''5000'' (- 10) True]"
  by (simp add: run_defs reader_defs frame_defs ipproto_defs)

section \<open>The UDP byte length\<close>

text \<open>
  Claim C3, as amended: for every UDP packet that reaches the dispatch, the length of
  every \<^verbatim>\<open>update_byte_count\<close> call made for the packet is the UDP length field itself,
  the eight header bytes included, and a call is made whenever one of the addresses is
  local.
\<close>

theorem udp_length_field_passed:
  assumes "dissected_udp header packet"
  shows "\<exists>evs. got_packet console plocal_ip header packet = Some evs \<and>
     (\<forall>n \<in> set (call_lengths evs). n = uint (hdr_uh_ulen packet)) \<and>
     (classification_of (hdr_match_val plocal_ip packet) \<noteq> NoMatch \<longrightarrow>
        call_lengths evs \<noteq> [])"
proof -
  from got_packet_udp_calls [OF assms, of console plocal_ip]
  obtain evs where e: "got_packet console plocal_ip header packet = Some evs"
    and c: "calls evs = dispatch_spec (classification_of (hdr_match_val plocal_ip packet))
                   (to_string (unat (hdr_sport packet)))
                   (to_string (unat (hdr_dport packet)))
                   (uint (hdr_uh_ulen packet))"
    by blast
  show ?thesis
    using e call_lengths_dispatch_spec [of "classification_of (hdr_match_val plocal_ip packet)"
        "to_string (unat (hdr_sport packet))" "to_string (unat (hdr_dport packet))"
        "uint (hdr_uh_ulen packet)"]
    by (auto simp add: call_lengths_def c)
qed

theorem udp_length_field_passed_witness:
  "dissected_udp (captured 42) frame_udp42 \<and> uint (hdr_uh_ulen frame_udp42) = 8 \<and>
   (\<exists>evs. got_packet False ''127.0.0.1'' (captured 42) frame_udp42 = Some evs \<and>
          (\<forall>n \<in> set (call_lengths evs). n = 8) \<and> call_lengths evs \<noteq> [])"
proof -
  have h: "dissected_udp (captured 42) frame_udp42"
    by (simp add: view_defs reader_defs frame_defs ipproto_defs)
  have c: "classification_of (hdr_match_val ''127.0.0.1'' frame_udp42) \<noteq> NoMatch"
    by (simp add: view_defs reader_defs frame_defs match_val_of_def)
  have p: "uint (hdr_uh_ulen frame_udp42) = 8"
    by (simp add: view_defs reader_defs frame_defs)
  from udp_length_field_passed [OF h, of False "''127.0.0.1''"]
  show ?thesis
    using h c p by simp
qed

text \<open>
  The claim as first stated, that the 42-byte loopback frame with UDP length field 8
  gives two calls of length 0, does not hold: both calls carry 8.
\<close>

theorem udp_length_counterexample:
  "got_packet False ''127.0.0.1'' (captured 42) frame_udp42 =
     Some [UpdateByteCount ''5000'' 8 True, UpdateByteCount ''6000'' 8 False]"
  by (simp add: run_defs reader_defs frame_defs ipproto_defs)

section \<open>Dispatch on the classification\<close>

text \<open>
  Claim C4: for every dissected transport packet, UDP or TCP, the calls of
  \<^verbatim>\<open>update_byte_count\<close> are exactly those the classification asks for: one Sent call on
  the source port for SourceIsLocal, one Received call on the destination port for
  DestinationIsLocal, both in this order and with the same length for BothLocal, and
  none for NoMatch.
\<close>

theorem dispatch_follows_classification:
  assumes "dissected_tcp packet \<or> dissected_udp header packet"
  shows "\<exists>evs. got_packet console plocal_ip header packet = Some evs \<and>
     calls evs = dispatch_spec (classification_of (hdr_match_val plocal_ip packet))
                   (to_string (unat (hdr_sport packet)))
                   (to_string (unat (hdr_dport packet)))
                   (accounted_length packet)"
  using assms
proof
  assume t: "dissected_tcp packet"
  then have "accounted_length packet = tcp_size_payload packet"
    by (simp add: accounted_length_def dissected_tcp_def)
  with got_packet_tcp_calls [OF t] show ?thesis by simp
next
  assume u: "dissected_udp header packet"
  then have "accounted_length packet = uint (hdr_uh_ulen packet)"
    by (simp add: accounted_length_def dissected_udp_def ipproto_defs)
  with got_packet_udp_calls [OF u] show ?thesis by simp
qed

theorem dispatch_follows_classification_witness:
  "dissected_tcp frame_tcp54 \<and>
   classification_of (hdr_match_val ''10.0.0.1'' frame_tcp54) = SourceIsLocal \<and>
   (\<exists>evs. got_packet False ''10.0.0.1'' (captured 54) frame_tcp54 = Some evs \<and>
          calls evs = [(''5000'', 60, True)])"
proof -
  have h: "dissected_tcp frame_tcp54"
    by (simp add: view_defs reader_defs frame_defs ipproto_defs)
  have c: "classification_of (hdr_match_val ''10.0.0.1'' frame_tcp54) = SourceIsLocal"
    by (simp add: view_defs reader_defs frame_defs match_val_of_def)
  have p: "to_string (unat (hdr_sport frame_tcp54)) = ''5000''"
    "accounted_length frame_tcp54 = 60"
    by (simp_all add: view_defs reader_defs frame_defs ipproto_defs)
  from dispatch_follows_classification [OF disjI1 [OF h], of False "''10.0.0.1''" "captured 54"]
  show ?thesis
    using h c p by (simp add: dispatch_spec_def)
qed

section \<open>Frames shorter than an Ethernet header\<close>



section \<open>An IP header length below the minimum\<close>

text \<open>
  Claim C6: when the IP header-length field encodes fewer than 20 bytes, \<^verbatim>\<open>got_packet\<close>
  stops at the IP stage: it reports the invalid length as it is, reads nothing after
  the header-length byte (that byte being captured is all the theorem asks of the
  frame), and makes no accounting call.
\<close>

theorem undersized_ip_header_length_fails:
  assumes "SIZE_ETHERNET < length packet" and "hdr_size_ip packet < 20"
  shows "\<exists>evs. got_packet console plocal_ip header packet = Some evs \<and>
     evs = [Stdout (''   * Invalid IP header length: '' @ to_string (hdr_size_ip packet)
                    @ '' bytes'')] \<and>
     calls evs = []"
  by (simp add: got_packet_invalid_ip [OF assms])

theorem undersized_ip_header_length_fails_witness:
  "SIZE_ETHERNET < length frame_ihl3 \<and> hdr_size_ip frame_ihl3 = 12 \<and>
   got_packet False ''10.0.0.1'' (captured 15) frame_ihl3 =
     Some [Stdout ''   * Invalid IP header length: 12 bytes'']"
proof -
  have l: "SIZE_ETHERNET < length frame_ihl3"
    by (simp add: SIZE_ETHERNET_def frame_defs)
  have s: "hdr_size_ip frame_ihl3 = 12"
    by (simp add: hdr_size_ip_def reader_defs frame_defs)
  then have lt: "hdr_size_ip frame_ihl3 < 20"
    by simp
  have t: "to_string 12 = ''12''"
    by (simp add: to_string.simps digit_char_def)
  from undersized_ip_header_length_fails [OF l lt, of False "''10.0.0.1''" "captured 15"]
  show ?thesis
    using l s t by simp
qed

section \<open>The TCP header length\<close>

text \<open>
  Claim C7: a TCP packet fails with reason "TCP header length" when fewer than 20
  captured bytes remain after the IP header, and with "TCP header with options" when
  the captured bytes do not cover data offset times 4, before the ports are read.
  \<^verbatim>\<open>got_packet\<close> compares nothing with the captured length on its TCP path, where
  \<^verbatim>\<open>dump_UDP_packet\<close> tests the remaining bytes against the UDP header: a TCP frame
  captured up to the flags byte, with 14 bytes after the IP header, is not refused but
  has its ports read and is accounted.
\<close>

theorem got_packet_accounts_truncated_tcp:
  "caplen (captured 48) = length frame_tcp48 \<and>
   hdr_ip_p frame_tcp48 = IPPROTO_TCP \<and>
   length frame_tcp48 - (SIZE_ETHERNET + hdr_size_ip frame_tcp48) = 14 \<and>
   got_packet False ''10.0.0.1'' (captured 48) frame_tcp48 =
     Some [UpdateByteCount ''5000'' 60 True]"
  by (simp add: run_defs reader_defs frame_defs ipproto_defs hdr_defs)

section \<open>Classification of the two addresses\<close>

text \<open>
  Claim C8, as amended: for every pair of addresses and every configured address
  \<^verbatim>\<open>plocal_ip\<close>, the classification is the one the rule gives for the local-address set
  made of the two strings "localhost" and \<^verbatim>\<open>plocal_ip\<close>: BothLocal when both addresses
  are in it, SourceIsLocal when only the source is, DestinationIsLocal when only the
  destination is, and NoMatch otherwise. The classification is a function of the two
  addresses and \<^verbatim>\<open>plocal_ip\<close>, so it is single-valued and the same on every run.
\<close>

theorem classification_refines_spec:
  "classification_of (match_val_of plocal_ip src_ip dst_ip) =
   classify_spec src_ip dst_ip {''localhost'', plocal_ip}"
  by (simp add: classification_of_def match_val_of_def classify_spec_def)

text \<open>
  The claim as first stated, for every local-address set, does not hold: the code has
  one configured address, and for the set of the two addresses 10.0.0.1 and 127.0.0.1
  no choice of \<^verbatim>\<open>plocal_ip\<close> makes it follow the rule. A packet from 10.0.0.1 to
  8.8.8.8 is SourceIsLocal by the rule, which forces \<^verbatim>\<open>plocal_ip\<close> to be 10.0.0.1; a
  packet from 127.0.0.1 to 8.8.8.8 forces it to be 127.0.0.1.
\<close>

theorem classification_two_address_set_counterexample:
  "\<not> (\<exists>plocal_ip. \<forall>src_ip dst_ip.
        classification_of (match_val_of plocal_ip src_ip dst_ip) =
        classify_spec src_ip dst_ip {''10.0.0.1'', ''127.0.0.1''})"
proof
  assume "\<exists>plocal_ip. \<forall>src_ip dst_ip.
        classification_of (match_val_of plocal_ip src_ip dst_ip) =
        classify_spec src_ip dst_ip {''10.0.0.1'', ''127.0.0.1''}"
  then obtain p where r: "\<And>src_ip dst_ip.
        classification_of (match_val_of p src_ip dst_ip) =
        classify_spec src_ip dst_ip {''10.0.0.1'', ''127.0.0.1''}"
    by blast
  have a: "classification_of (match_val_of p ''10.0.0.1'' ''8.8.8.8'') = SourceIsLocal"
    unfolding r by (simp add: classify_spec_def)
  have b: "classification_of (match_val_of p ''127.0.0.1'' ''8.8.8.8'') = SourceIsLocal"
    unfolding r by (simp add: classify_spec_def)
  from a have "p = ''10.0.0.1''"
    by (simp add: classification_of_def match_val_of_def split: if_splits)
  moreover from b have "p = ''127.0.0.1''"
    by (simp add: classification_of_def match_val_of_def split: if_splits)
  ultimately show False
    by simp
qed

section \<open>Protocols other than UDP and TCP\<close>

text \<open>
  Claim C9: for every IP packet whose protocol is neither UDP nor TCP, \<^verbatim>\<open>got_packet\<close>
  stops after the protocol dispatch: it prints the protocol line (ICMP, IP or unknown)
  on stdout, reports no problem, and makes no accounting call.
\<close>

theorem other_protocols_stop_without_accounting:
  assumes "SIZE_ETHERNET + sizeof_ip \<le> length packet"
    and "20 \<le> hdr_size_ip packet"
    and "hdr_ip_p packet \<noteq> IPPROTO_TCP"
    and "hdr_ip_p packet \<noteq> IPPROTO_UDP"
  shows "\<exists>evs. got_packet console plocal_ip header packet = Some evs \<and>
     evs = shown_addresses console packet @
           [Stdout (if hdr_ip_p packet = IPPROTO_ICMP then ''   Protocol: ICMP''
                    else if hdr_ip_p packet = IPPROTO_IP then ''   Protocol: IP''
                    else ''   Protocol: unknown'')] \<and>
     calls evs = []"
proof -
  from assms(1) have l: "SIZE_ETHERNET + 20 \<le> length packet"
    by (simp add: sizeof_ip_def)
  show ?thesis
    by (simp add: got_packet_other [OF l assms(2) assms(3) assms(4)]
        calls_append calls_shown_addresses)
qed

theorem other_protocols_stop_without_accounting_witness:
  "SIZE_ETHERNET + sizeof_ip \<le> length frame_icmp \<and>
   20 \<le> hdr_size_ip frame_icmp \<and>
   hdr_ip_p frame_icmp \<noteq> IPPROTO_TCP \<and>
   hdr_ip_p frame_icmp \<noteq> IPPROTO_UDP \<and>
   got_packet False ''10.0.0.1'' (captured 34) frame_icmp = Some [Stdout ''   Protocol: ICMP'']"
proof -
  have a: "SIZE_ETHERNET + sizeof_ip \<le> length frame_icmp"
    and b: "20 \<le> hdr_size_ip frame_icmp"
    and c: "hdr_ip_p frame_icmp \<noteq> IPPROTO_TCP"
    and d: "hdr_ip_p frame_icmp \<noteq> IPPROTO_UDP"
    and e: "hdr_ip_p frame_icmp = IPPROTO_ICMP"
    by (simp_all add: hdr_defs reader_defs frame_defs ipproto_defs)
  from other_protocols_stop_without_accounting [OF a b c d, of False "''10.0.0.1''" "captured 34"]
  show ?thesis
    using a b c d e by (simp add: shown_addresses_def)
qed

section \<open>The two strings of the locality test\<close>

text \<open>
  Claim C10: locality is decided by string equality of the rendered addresses with
  "localhost" and \<^verbatim>\<open>plocal_ip\<close> only: when both rendered addresses differ from both
  strings the classification is NoMatch, and the loopback address, rendered
  "127.0.0.1", is local exactly when \<^verbatim>\<open>plocal_ip\<close> is "127.0.0.1".
\<close>

theorem locality_compares_two_strings:
  "(src_ip \<noteq> ''localhost'' \<and> src_ip \<noteq> plocal_ip \<and>
    dst_ip \<noteq> ''localhost'' \<and> dst_ip \<noteq> plocal_ip \<longrightarrow>
      match_val_of plocal_ip src_ip dst_ip = 0 \<and>
      classification_of (match_val_of plocal_ip src_ip dst_ip) = NoMatch) \<and>
   inet_ntoa [127, 0, 0, 1] = ''127.0.0.1'' \<and>
   (classification_of (match_val_of plocal_ip (inet_ntoa [127, 0, 0, 1]) dst_ip)
      \<in> {SourceIsLocal, BothLocal} \<longleftrightarrow> plocal_ip = ''127.0.0.1'') \<and>
   (classification_of (match_val_of plocal_ip src_ip (inet_ntoa [127, 0, 0, 1]))
      \<in> {DestinationIsLocal, BothLocal} \<longleftrightarrow> plocal_ip = ''127.0.0.1'')"
proof -
  have r: "inet_ntoa [127, 0, 0, 1] = ''127.0.0.1''"
    by (simp add: inet_ntoa_def to_string.simps digit_char_def)
  show ?thesis
    unfolding r
    by (auto simp add: match_val_of_def classification_of_def)
qed

theorem locality_compares_two_strings_witness:
  "''10.0.0.5'' \<noteq> ''localhost'' \<and> ''10.0.0.5'' \<noteq> ''10.0.0.1'' \<and>
   ''10.0.0.6'' \<noteq> ''localhost'' \<and> ''10.0.0.6'' \<noteq> ''10.0.0.1'' \<and>
   match_val_of ''10.0.0.1'' ''10.0.0.5'' ''10.0.0.6'' = 0 \<and>
   classification_of (match_val_of ''10.0.0.1'' ''10.0.0.5'' ''10.0.0.6'') = NoMatch \<and>
   classification_of (match_val_of ''10.0.0.1'' (inet_ntoa [127, 0, 0, 1]) ''10.0.0.6'')
     \<notin> {SourceIsLocal, BothLocal}"
proof -
  note t = locality_compares_two_strings [of "''10.0.0.5''" "''10.0.0.1''" "''10.0.0.6''"]
  have s: "''10.0.0.5'' \<noteq> ''localhost'' \<and> ''10.0.0.5'' \<noteq> ''10.0.0.1'' \<and>
      ''10.0.0.6'' \<noteq> ''localhost'' \<and> ''10.0.0.6'' \<noteq> ''10.0.0.1''"
    by simp
  have ne: "''10.0.0.1'' \<noteq> ''127.0.0.1''"
    by simp
  from t s have a: "match_val_of ''10.0.0.1'' ''10.0.0.5'' ''10.0.0.6'' = 0 \<and>
      classification_of (match_val_of ''10.0.0.1'' ''10.0.0.5'' ''10.0.0.6'') = NoMatch"
    by blast
  from t ne have b:
    "classification_of (match_val_of ''10.0.0.1'' (inet_ntoa [127, 0, 0, 1]) ''10.0.0.6'')
       \<notin> {SourceIsLocal, BothLocal}"
    by blast
  from s a b show ?thesis
    by blast
qed

end
